theory Spec2Isabelle
  imports Complex_Main
begin

section \<open>JavaScript values used by the table detection module\<close>

text \<open>
  The module computes with JavaScript numbers. They are modelled as the real numbers
  extended by the two infinities and NaN: \<open>Math.min()\<close> and \<open>Math.max()\<close> of no
  argument are \<open>+Infinity\<close> and \<open>-Infinity\<close>, and \<open>Infinity - Infinity\<close> is NaN, all of
  which the row box of a row without cells takes. Rounding of doubles is not modelled.
\<close>

datatype jsnum = Num real | PInf | NInf | NaN

fun js_neg :: "jsnum \<Rightarrow> jsnum" where
  "js_neg (Num a) = Num (- a)"
| "js_neg PInf = NInf"
| "js_neg NInf = PInf"
| "js_neg NaN = NaN"

fun js_add :: "jsnum \<Rightarrow> jsnum \<Rightarrow> jsnum" where
  "js_add (Num a) (Num b) = Num (a + b)"
| "js_add NaN b = NaN"
| "js_add a NaN = NaN"
| "js_add PInf NInf = NaN"
| "js_add NInf PInf = NaN"
| "js_add PInf b = PInf"
| "js_add a PInf = PInf"
| "js_add NInf b = NInf"
| "js_add a NInf = NInf"

definition js_sub :: "jsnum \<Rightarrow> jsnum \<Rightarrow> jsnum" where
  "js_sub a b = js_add a (js_neg b)"

text \<open>\<open>a < b\<close> and \<open>a > b\<close> of JavaScript: false as soon as one side is NaN.\<close>

fun js_lt :: "jsnum \<Rightarrow> jsnum \<Rightarrow> bool" where
  "js_lt (Num a) (Num b) = (a < b)"
| "js_lt NaN b = False"
| "js_lt a NaN = False"
| "js_lt a NInf = False"
| "js_lt PInf b = False"
| "js_lt NInf b = True"
| "js_lt a PInf = True"

definition js_gt :: "jsnum \<Rightarrow> jsnum \<Rightarrow> bool" where
  "js_gt a b = js_lt b a"

text \<open>Strict equality \<open>===\<close> on numbers: NaN equals nothing, itself included.\<close>

definition js_eq :: "jsnum \<Rightarrow> jsnum \<Rightarrow> bool" where
  "js_eq a b = (a \<noteq> NaN \<and> b \<noteq> NaN \<and> a = b)"

fun js_ceil :: "jsnum \<Rightarrow> jsnum" where
  "js_ceil (Num a) = Num (of_int \<lceil>a\<rceil>)"
| "js_ceil PInf = PInf"
| "js_ceil NInf = NInf"
| "js_ceil NaN = NaN"

definition js_min :: "jsnum \<Rightarrow> jsnum \<Rightarrow> jsnum" where
  "js_min a b = (if a = NaN \<or> b = NaN then NaN else if js_lt b a then b else a)"

definition js_max :: "jsnum \<Rightarrow> jsnum \<Rightarrow> jsnum" where
  "js_max a b = (if a = NaN \<or> b = NaN then NaN else if js_lt a b then b else a)"

text \<open>\<open>Math.min(...xs)\<close> and \<open>Math.max(...xs)\<close>.\<close>

definition Math_min :: "jsnum list \<Rightarrow> jsnum" where
  "Math_min xs = foldl js_min PInf xs"

definition Math_max :: "jsnum list \<Rightarrow> jsnum" where
  "Math_max xs = foldl js_max NInf xs"

datatype error = TypeError | SyntaxError | IOError

section \<open>The document model\<close>

record BoundingBox =
  box_left :: jsnum
  box_top :: jsnum
  box_width :: jsnum
  box_height :: jsnum

text \<open>
  Modelled from the spec: the derived coordinates of \<open>BoundingBox\<close> (the class is in
  \<open>types/DocumentRepresentation\<close>, which is not part of the sources): "BoundingBox: left,
  top, width, height. Derived: right, bottom."
\<close>

definition box_right :: "BoundingBox \<Rightarrow> jsnum" where
  "box_right b = js_add (box_left b) (box_width b)"

definition box_bottom :: "BoundingBox \<Rightarrow> jsnum" where
  "box_bottom b = js_add (box_top b) (box_height b)"

fun fin :: "jsnum \<Rightarrow> real option" where
  "fin (Num a) = Some a"
| "fin PInf = None"
| "fin NInf = None"
| "fin NaN = None"

text \<open>
  Modelled from the spec: \<open>BoundingBox.getOverlap(A, B).box1OverlapProportion\<close>, which is
  in \<open>types/DocumentRepresentation\<close>: "compute intersection rectangle of two boxes; if
  empty, proportion = 0. box1OverlapProportion(A,B) = area(intersection)/area(A)". Boxes
  with a coordinate that is not finite give NaN here.
\<close>

definition box1OverlapProportion :: "BoundingBox \<Rightarrow> BoundingBox \<Rightarrow> jsnum" where
  "box1OverlapProportion a b =
     (case (fin (box_left a), fin (box_top a), fin (box_width a), fin (box_height a),
            fin (box_left b), fin (box_top b), fin (box_width b), fin (box_height b)) of
        (Some la, Some ta, Some wa, Some ha, Some lb, Some tb, Some wb, Some hb) \<Rightarrow>
          (let iw = min (la + wa) (lb + wb) - max la lb;
               ih = min (ta + ha) (tb + hb) - max ta tb
           in if iw \<le> 0 \<or> ih \<le> 0 then Num 0
              else if wa * ha = 0 then PInf
              else Num (iw * ih / (wa * ha)))
      | _ \<Rightarrow> NaN)"

record Word =
  word_id :: nat
  word_box :: BoundingBox
  word_text :: string

text \<open>The direction tags \<open>left\<close>, \<open>top\<close> and \<open>right\<close> of a spanned cell.\<close>

datatype direction = DirLeft | DirTop | DirRight

text \<open>
  A cell of a row is a \<open>TableCell\<close> or a \<open>SpannedTableCell\<close>. The box is optional because
  \<open>createRows\<close> filters on \<open>!!tc.box\<close>; a \<open>TableCell\<close> keeps the raw \<open>colSpan\<close> and
  \<open>rowSpan\<close> as they came (\<open>None\<close> for \<open>undefined\<close>).
\<close>

datatype Cell =
  TableCell "BoundingBox option" "Word list" "nat option" "nat option"
| SpannedTableCell "BoundingBox option" direction

fun cell_box :: "Cell \<Rightarrow> BoundingBox option" where
  "cell_box (TableCell b ws cs rs) = b"
| "cell_box (SpannedTableCell b d) = b"

fun cell_content :: "Cell \<Rightarrow> Word list" where
  "cell_content (TableCell b ws cs rs) = ws"
| "cell_content (SpannedTableCell b d) = []"


text \<open>The getters \<open>left\<close>, \<open>top\<close>, \<open>right\<close> and \<open>bottom\<close> of an element, read off its box.\<close>

definition cell_left :: "Cell \<Rightarrow> jsnum" where
  "cell_left c = box_left (the (cell_box c))"

definition cell_top :: "Cell \<Rightarrow> jsnum" where
  "cell_top c = box_top (the (cell_box c))"

definition cell_right :: "Cell \<Rightarrow> jsnum" where
  "cell_right c = box_right (the (cell_box c))"

definition cell_bottom :: "Cell \<Rightarrow> jsnum" where
  "cell_bottom c = box_bottom (the (cell_box c))"

record TableRow =
  row_content :: "Cell list"
  row_box :: BoundingBox

record Table =
  table_content :: "TableRow list"
  table_box :: BoundingBox

text \<open>
  The elements of a page: words, tables, and every other kind of element, of which the
  module reads nothing.
\<close>

datatype Element = EWord Word | ETable Table | EOther nat

record Page =
  page_box :: BoundingBox
  page_elements :: "Element list"

record Document =
  doc_inputFile :: string
  doc_pages :: "Page list"

fun isWord :: "Element \<Rightarrow> bool" where
  "isWord (EWord w) = True"
| "isWord (ETable t) = False"
| "isWord (EOther n) = False"

text \<open>
  Modelled from the spec: \<open>getElementsOfType\<close> of \<open>Page\<close> and \<open>Document\<close> (both in
  \<open>types/DocumentRepresentation\<close>). A page is an "ordered, flat sequence of Elements";
  its words are the \<open>Word\<close> elements of that sequence, its tables the \<open>Table\<close> elements,
  and its table cells are the cells of the rows of its tables ("the set of Word ids
  referenced by any TableCell on that page").
\<close>

fun wordsOfElement :: "Element \<Rightarrow> Word list" where
  "wordsOfElement (EWord w) = [w]"
| "wordsOfElement (ETable t) = []"
| "wordsOfElement (EOther n) = []"

fun tablesOfElement :: "Element \<Rightarrow> Table list" where
  "tablesOfElement (EWord w) = []"
| "tablesOfElement (ETable t) = [t]"
| "tablesOfElement (EOther n) = []"

definition getWords :: "Page \<Rightarrow> Word list" where
  "getWords page = concat (map wordsOfElement (page_elements page))"

definition getTables :: "Page \<Rightarrow> Table list" where
  "getTables page = concat (map tablesOfElement (page_elements page))"

definition cellsOfTable :: "Table \<Rightarrow> Cell list" where
  "cellsOfTable t = concat (map row_content (table_content t))"

definition getTableCells :: "Page \<Rightarrow> Cell list" where
  "getTableCells page = concat (map cellsOfTable (getTables page))"

definition docTables :: "Document \<Rightarrow> Table list" where
  "docTables doc = concat (map getTables (doc_pages doc))"

section \<open>The raw table descriptor\<close>

record RawCell =
  raw_location :: "jsnum \<times> jsnum"
  raw_size :: "jsnum \<times> jsnum"
  raw_colSpan :: "nat option"
  raw_rowSpan :: "nat option"

record RawTable =
  td_location :: "jsnum \<times> jsnum"
  td_size :: "jsnum \<times> jsnum"
  td_cols :: "(jsnum \<times> jsnum) list"
  td_rows :: "(jsnum \<times> jsnum) list"
  td_cells :: "RawCell option list list"
  td_content :: "string list list option"
  td_flavor :: string

record PageData =
  pd_page :: int
  pd_tables :: "RawTable list"

record SpannedCellPosition =
  sc_x :: nat
  sc_y :: nat
  sc_direction :: direction

section \<open>Reconstruction of the rows of a table\<close>

text \<open>\<open>wordsInCellBox\<close>: the page words of which more than 75% lie in the cell's box.\<close>

definition wordsInCellBox :: "BoundingBox \<Rightarrow> Word list \<Rightarrow> Word list" where
  "wordsInCellBox cellBounds pageWords =
     filter (\<lambda>w. js_gt (box1OverlapProportion (word_box w) cellBounds) (Num 0.75)) pageWords"

text \<open>\<open>cell.colSpan || 1\<close>: an absent span and a span of 0 both count as 1.\<close>

definition spanOf :: "nat option \<Rightarrow> nat" where
  "spanOf s = (case s of None \<Rightarrow> 1 | Some n \<Rightarrow> if n = 0 then 1 else n)"

text \<open>
  The positions a raw cell at \<open>(colIndex, rowIndex)\<close> pushes on \<open>spannedCells\<close>: the two
  nested \<open>forEach\<close> over \<open>Array(colSpan).keys()\<close> and \<open>Array(rowSpan).keys()\<close>, in their
  order.
\<close>

definition spannedBy :: "RawCell \<Rightarrow> nat \<Rightarrow> nat \<Rightarrow> SpannedCellPosition list" where
  "spannedBy cell colIndex rowIndex =
     concat (map (\<lambda>x. concat (map (\<lambda>y.
         if x \<noteq> 0 \<or> y \<noteq> 0
         then [\<lparr>sc_x = x + colIndex, sc_y = y + rowIndex,
                sc_direction = (if x > 0 then DirLeft else DirTop)\<rparr>]
         else [])
       [0..<spanOf (raw_rowSpan cell)]))
     [0..<spanOf (raw_colSpan cell)])"

text \<open>The box of a spanned cell, from the column and row boundaries with the y flip.\<close>

definition slotBox ::
  "(jsnum \<times> jsnum) list \<Rightarrow> (jsnum \<times> jsnum) list \<Rightarrow> jsnum \<Rightarrow> nat \<Rightarrow> nat \<Rightarrow> BoundingBox" where
  "slotBox cols rows pageHeight colIndex rowIndex =
     (let x1 = fst (cols ! colIndex); x2 = snd (cols ! colIndex);
          y1 = js_sub pageHeight (fst (rows ! rowIndex));
          y2 = js_sub pageHeight (snd (rows ! rowIndex))
      in \<lparr>box_left = x1, box_top = y1, box_width = js_sub x2 x1, box_height = js_sub y2 y1\<rparr>)"

text \<open>\<open>row.splice(colIndex, 0, null)\<close> when the row is shorter than the column list.\<close>

definition padRow :: "RawCell option list \<Rightarrow> nat \<Rightarrow> nat \<Rightarrow> RawCell option list" where
  "padRow row ncols colIndex =
     (if length row < ncols then take colIndex row @ [None] @ drop colIndex row else row)"

text \<open>\<open>row[colIndex]\<close>: \<open>undefined\<close> past the end of the row counts as no cell, like \<open>null\<close>.\<close>

definition rawAt :: "RawCell option list \<Rightarrow> nat \<Rightarrow> RawCell option" where
  "rawAt row colIndex = (if colIndex < length row then row ! colIndex else None)"

definition cellBoundsOf :: "RawCell \<Rightarrow> jsnum \<Rightarrow> BoundingBox" where
  "cellBoundsOf cell pageHeight =
     \<lparr>box_left = fst (raw_location cell),
      box_top = js_sub pageHeight (snd (raw_location cell)),
      box_width = fst (raw_size cell),
      box_height = snd (raw_size cell)\<rparr>"

definition newTableCell :: "RawCell \<Rightarrow> jsnum \<Rightarrow> Word list \<Rightarrow> Cell" where
  "newTableCell cell pageHeight pageWords =
     TableCell (Some (cellBoundsOf cell pageHeight))
       (wordsInCellBox (cellBoundsOf cell pageHeight) pageWords)
       (raw_colSpan cell) (raw_rowSpan cell)"

text \<open>
  \<open>createRowCells\<close>: the loop over \<open>colIndex\<close>, from a given column on, with the state it
  changes: the raw row (spliced), the list \<open>spannedCells\<close> (shared by all rows of the
  table) and the cells pushed so far. Reading \<open>rows[rowIndex]\<close> outside of \<open>rows\<close> gives
  \<open>undefined\<close>, whose \<open>map\<close> is a TypeError.
\<close>

function createRowCells_from ::
  "nat \<Rightarrow> RawCell option list \<Rightarrow> nat \<Rightarrow> jsnum \<Rightarrow> Word list \<Rightarrow> SpannedCellPosition list \<Rightarrow>
   (jsnum \<times> jsnum) list \<Rightarrow> (jsnum \<times> jsnum) list \<Rightarrow> Cell list \<Rightarrow>
   error + (Cell list \<times> SpannedCellPosition list)" where
  "createRowCells_from colIndex row rowIndex pageHeight pageWords spannedCells cols rows cells =
     (if colIndex < length cols then
        (case find (\<lambda>sc. sc_x sc = colIndex \<and> sc_y sc = rowIndex) spannedCells of
           Some spannedCell \<Rightarrow>
             (if rowIndex < length rows then
                createRowCells_from (Suc colIndex) (padRow row (length cols) colIndex) rowIndex
                  pageHeight pageWords spannedCells cols rows
                  (cells @ [SpannedTableCell (Some (slotBox cols rows pageHeight colIndex rowIndex))
                              (sc_direction spannedCell)])
              else Inl TypeError)
         | None \<Rightarrow>
             (case rawAt row colIndex of
                Some cell \<Rightarrow>
                  createRowCells_from (Suc colIndex) row rowIndex pageHeight pageWords
                    (spannedCells @ spannedBy cell colIndex rowIndex) cols rows
                    (cells @ [newTableCell cell pageHeight pageWords])
              | None \<Rightarrow>
                  createRowCells_from (Suc colIndex) row rowIndex pageHeight pageWords
                    spannedCells cols rows cells))
      else Inr (cells, spannedCells))"
  by pat_completeness auto
termination
  by (relation "measure (\<lambda>(colIndex, row, rowIndex, pageHeight, pageWords, spannedCells,
        cols, rows, cells). length cols - colIndex)") auto

declare createRowCells_from.simps [simp del]

definition createRowCells ::
  "RawCell option list \<Rightarrow> nat \<Rightarrow> jsnum \<Rightarrow> Word list \<Rightarrow> SpannedCellPosition list \<Rightarrow>
   (jsnum \<times> jsnum) list \<Rightarrow> (jsnum \<times> jsnum) list \<Rightarrow>
   error + (Cell list \<times> SpannedCellPosition list)" where
  "createRowCells row rowIndex pageHeight pageWords spannedCells cols rows =
     createRowCells_from 0 row rowIndex pageHeight pageWords spannedCells cols rows []"

text \<open>The cells of a row that have a box: \<open>tableCells.filter(tc => !!tc.box)\<close>.\<close>

definition withBox :: "Cell list \<Rightarrow> Cell list" where
  "withBox tableCells = filter (\<lambda>tc. cell_box tc \<noteq> None) tableCells"

definition newTableRow :: "Cell list \<Rightarrow> TableRow" where
  "newTableRow tableCells =
     (let maxRight = Math_max (map cell_right (withBox tableCells));
          minLeft = Math_min (map cell_left (withBox tableCells));
          minTop = Math_min (map cell_top (withBox tableCells));
          minBottom = Math_min (map cell_bottom (withBox tableCells));
          rowWidth = js_sub maxRight minLeft;
          rowHeight = js_sub minBottom minTop
      in \<lparr>row_content = tableCells,
          row_box = \<lparr>box_left = minLeft, box_top = minTop,
                     box_width = rowWidth, box_height = rowHeight\<rparr>\<rparr>)"

text \<open>
  \<open>createRows\<close>: \<open>tableData.cells.map\<close>, from a given row index on, threading the list
  \<open>spannedCells\<close> from one row to the next.
\<close>

fun createRows_from ::
  "RawCell option list list \<Rightarrow> nat \<Rightarrow> jsnum \<Rightarrow> Word list \<Rightarrow> SpannedCellPosition list \<Rightarrow>
   (jsnum \<times> jsnum) list \<Rightarrow> (jsnum \<times> jsnum) list \<Rightarrow> error + TableRow list" where
  "createRows_from [] rowIndex pageHeight pageWords spannedCells cols rows = Inr []"
| "createRows_from (row # rest) rowIndex pageHeight pageWords spannedCells cols rows =
     (case createRowCells row rowIndex pageHeight pageWords spannedCells cols rows of
        Inl e \<Rightarrow> Inl e
      | Inr (tableCells, spannedCells') \<Rightarrow>
          (case createRows_from rest (Suc rowIndex) pageHeight pageWords spannedCells' cols rows of
             Inl e \<Rightarrow> Inl e
           | Inr trs \<Rightarrow> Inr (newTableRow tableCells # trs)))"

definition createRows :: "RawTable \<Rightarrow> Page \<Rightarrow> error + TableRow list" where
  "createRows tableData page =
     createRows_from (td_cells tableData) 0 (box_height (page_box page)) (getWords page) []
       (td_cols tableData) (td_rows tableData)"

definition createTable :: "RawTable \<Rightarrow> jsnum \<Rightarrow> Table" where
  "createTable tableData pageHeight =
     \<lparr>table_content = [],
      table_box = \<lparr>box_left = fst (td_location tableData),
                   box_top = js_sub pageHeight (snd (td_location tableData)),
                   box_width = fst (td_size tableData),
                   box_height = snd (td_size tableData)\<rparr>\<rparr>"

section \<open>Strings\<close>

text \<open>
  \<open>String.prototype.trim\<close> and \<open>Array.prototype.join\<close>. Strings are lists of
  characters; the white space that \<open>trim\<close> removes is the ASCII white space.
\<close>

definition isWhiteSpace :: "char \<Rightarrow> bool" where
  "isWhiteSpace c = (c \<in> set [CHR '' '', CHR 0x09, CHR 0x0A, CHR 0x0B, CHR 0x0C, CHR 0x0D])"

definition trim :: "string \<Rightarrow> string" where
  "trim s = rev (dropWhile isWhiteSpace (rev (dropWhile isWhiteSpace s)))"

fun join :: "string \<Rightarrow> string list \<Rightarrow> string" where
  "join sep [] = []"
| "join sep [x] = x"
| "join sep (x # y # ys) = x @ sep @ join sep (y # ys)"

text \<open>
  Modelled from the spec: \<open>toString\<close> of a cell (in \<open>types/DocumentRepresentation\<close>),
  "the concatenation of its cell's word texts"; the words are separated by one space, as
  in the spec's example cell text "this is only one". A spanned cell has no content.
\<close>

definition cellToString :: "Cell \<Rightarrow> string" where
  "cellToString c = join '' '' (map word_text (cell_content c))"

section \<open>Merging cells by their expected content\<close>

text \<open>
  Modelled from the spec: \<open>utils.groupConsecutiveNumbersInArray\<close> (in \<open>utils\<close>): "Group
  consecutive candidate column indices into maximal runs".
\<close>

fun groupConsecutiveNumbersInArray :: "nat list \<Rightarrow> nat list list" where
  "groupConsecutiveNumbersInArray [] = []"
| "groupConsecutiveNumbersInArray (n # ns) =
     (case groupConsecutiveNumbersInArray ns of
        [] \<Rightarrow> [[n]]
      | g # gs \<Rightarrow> (if g \<noteq> [] \<and> hd g = Suc n then (n # g) # gs else [n] # g # gs))"

text \<open>
  The first pass of \<open>getMergeCandidateCellPositions\<close> over one row of \<open>tableData\<close>: the
  columns whose cell text differs from the expected text. \<open>tableContent[nRow]\<close> or
  \<open>content[nCol]\<close> outside of the list is \<open>undefined\<close>, and reading from it a TypeError.
\<close>

fun candidateCols :: "TableRow list \<Rightarrow> nat \<Rightarrow> string list \<Rightarrow> nat \<Rightarrow> error + nat list" where
  "candidateCols tableContent nRow [] nCol = Inr []"
| "candidateCols tableContent nRow (cellStr # rest) nCol =
     (if nRow < length tableContent \<and> nCol < length (row_content (tableContent ! nRow)) then
        (case candidateCols tableContent nRow rest (Suc nCol) of
           Inl e \<Rightarrow> Inl e
         | Inr cs \<Rightarrow>
             Inr (if cellToString (row_content (tableContent ! nRow) ! nCol) \<noteq> cellStr
                  then nCol # cs else cs))
      else Inl TypeError)"

text \<open>
  The object \<open>mergeCandidateCells\<close> is an association list from row numbers to values, in
  the order of its keys; a row is entered when its first candidate is found.
\<close>

fun candidateRows ::
  "TableRow list \<Rightarrow> string list list \<Rightarrow> nat \<Rightarrow> error + (nat \<times> nat list) list" where
  "candidateRows tableContent [] nRow = Inr []"
| "candidateRows tableContent (dataRow # rest) nRow =
     (case candidateCols tableContent nRow dataRow 0 of
        Inl e \<Rightarrow> Inl e
      | Inr cs \<Rightarrow>
          (case candidateRows tableContent rest (Suc nRow) of
             Inl e \<Rightarrow> Inl e
           | Inr m \<Rightarrow> Inr (if cs = [] then m else (nRow, cs) # m)))"

definition candidateGroups :: "nat list \<Rightarrow> nat list list" where
  "candidateGroups cs = filter (\<lambda>group. length group > 1) (groupConsecutiveNumbersInArray cs)"

definition getMergeCandidateCellPositions ::
  "TableRow list \<Rightarrow> string list list \<Rightarrow> error + (nat \<times> nat list list) list" where
  "getMergeCandidateCellPositions tableContent tableData =
     (case candidateRows tableContent tableData 0 of
        Inl e \<Rightarrow> Inl e
      | Inr m \<Rightarrow>
          Inr (filter (\<lambda>(nRow, groups). groups \<noteq> [])
                 (map (\<lambda>(nRow, cs). (nRow, candidateGroups cs)) m)))"

definition expectedTextInSubGroup :: "string list \<Rightarrow> nat list \<Rightarrow> string" where
  "expectedTextInSubGroup dataRow cellSubGroup =
     trim (join '' '' (map (\<lambda>cellCol. trim (dataRow ! cellCol)) cellSubGroup))"

definition subgroupText :: "Cell list \<Rightarrow> nat list \<Rightarrow> string" where
  "subgroupText cells cellSubGroup =
     trim (join '' '' (map (\<lambda>cell. trim (cellToString cell)) (nths cells (set cellSubGroup))))"

text \<open>
  The \<open>for\<close> loop of \<open>joinCellsByContent\<close> over one group of columns \<open>cellColGroup\<close> of
  the row \<open>cellRow\<close>, from the index \<open>i\<close> on with the current \<open>cellSubGroup\<close>: the
  subgroups it pushes on \<open>groupsToMerge\<close>. \<open>dataRow\<close> is \<open>tableData[cellRow]\<close> and
  \<open>cells\<close> is \<open>tableContent[cellRow].content\<close>; the columns of a group are candidates, so
  they are positions of \<open>dataRow\<close>.
\<close>

function subGroupsToMerge ::
  "nat \<Rightarrow> nat list \<Rightarrow> nat list \<Rightarrow> Cell list \<Rightarrow> string list \<Rightarrow> nat list list" where
  "subGroupsToMerge i cellColGroup cellSubGroup cells dataRow =
     (if i < length cellColGroup then
        (if expectedTextInSubGroup dataRow cellSubGroup = subgroupText cells cellSubGroup
         then [cellSubGroup] else []) @
        subGroupsToMerge (Suc i) cellColGroup
          ((if length (subgroupText cells cellSubGroup)
                  > length (expectedTextInSubGroup dataRow cellSubGroup)
               \<or> expectedTextInSubGroup dataRow cellSubGroup = subgroupText cells cellSubGroup
            then [] else cellSubGroup) @
           (if length cellColGroup > i + 1 then [cellColGroup ! (i + 1)] else []))
          cells dataRow
      else [])"
  by pat_completeness auto
termination
  by (relation "measure (\<lambda>(i, cellColGroup, cellSubGroup, cells, dataRow).
        length cellColGroup - i)") auto

declare subGroupsToMerge.simps [simp del]

text \<open>\<open>groupsToMerge\<close> of a row: the subgroups of all of its groups of columns.\<close>

definition groupsToMerge :: "nat list list \<Rightarrow> Cell list \<Rightarrow> string list \<Rightarrow> nat list list" where
  "groupsToMerge colGroups cells dataRow =
     concat (map (\<lambda>cellColGroup.
        subGroupsToMerge 0 cellColGroup [hd cellColGroup] cells dataRow) colGroups)"

text \<open>
  Modelled from the spec: \<open>TableRow.mergeCells\<close> (in \<open>types/DocumentRepresentation\<close>):
  "each group's cells are coalesced into one cell whose box is the union of the group's
  boxes and whose word content is the concatenation in left-to-right order; cells outside
  any group are unchanged." The spans of the coalesced cell, of which the spec says
  nothing, are those of the first cell of the group.
\<close>

definition unionBox :: "BoundingBox list \<Rightarrow> BoundingBox option" where
  "unionBox bs =
     (if bs = [] then None
      else Some \<lparr>box_left = Math_min (map box_left bs),
                 box_top = Math_min (map box_top bs),
                 box_width = js_sub (Math_max (map box_right bs)) (Math_min (map box_left bs)),
                 box_height = js_sub (Math_max (map box_bottom bs)) (Math_min (map box_top bs))\<rparr>)"

definition coalesce :: "Cell list \<Rightarrow> Cell" where
  "coalesce cs =
     TableCell (unionBox (concat (map (\<lambda>c. case cell_box c of None \<Rightarrow> [] | Some b \<Rightarrow> [b]) cs)))
       (concat (map cell_content cs))
       (case hd cs of TableCell b ws cspan rspan \<Rightarrow> cspan | SpannedTableCell b d \<Rightarrow> None)
       (case hd cs of TableCell b ws cspan rspan \<Rightarrow> rspan | SpannedTableCell b d \<Rightarrow> None)"

fun mergeCells_from :: "nat \<Rightarrow> Cell list \<Rightarrow> Cell list \<Rightarrow> nat list list \<Rightarrow> Cell list" where
  "mergeCells_from i [] allCells groups = []"
| "mergeCells_from i (c # cs) allCells groups =
     (case find (\<lambda>g. i \<in> set g) groups of
        None \<Rightarrow> c # mergeCells_from (Suc i) cs allCells groups
      | Some g \<Rightarrow>
          (if hd g = i then coalesce (nths allCells (set g)) # mergeCells_from (Suc i) cs allCells groups
           else mergeCells_from (Suc i) cs allCells groups))"

definition mergeCells :: "TableRow \<Rightarrow> nat list list \<Rightarrow> TableRow" where
  "mergeCells row groups =
     row\<lparr>row_content := mergeCells_from 0 (row_content row) (row_content row) groups\<rparr>"

text \<open>
  \<open>joinCellsByContent\<close>: for every row with candidates, in the order of the keys, the
  groups to merge are computed and, when there are any, merged in that row.
\<close>

fun joinRows ::
  "(nat \<times> nat list list) list \<Rightarrow> TableRow list \<Rightarrow> string list list \<Rightarrow> TableRow list" where
  "joinRows [] tableContent tableData = tableContent"
| "joinRows ((cellRow, colGroups) # rest) tableContent tableData =
     (let gs = groupsToMerge colGroups (row_content (tableContent ! cellRow)) (tableData ! cellRow)
      in joinRows rest
           (if length gs > 0 then tableContent[cellRow := mergeCells (tableContent ! cellRow) gs]
            else tableContent)
           tableData)"

definition joinCellsByContent ::
  "TableRow list \<Rightarrow> string list list \<Rightarrow> error + TableRow list" where
  "joinCellsByContent tableContent tableData =
     (case getMergeCandidateCellPositions tableContent tableData of
        Inl e \<Rightarrow> Inl e
      | Inr mergeCandidateCells \<Rightarrow> Inr (joinRows mergeCandidateCells tableContent tableData))"

section \<open>The validity heuristic\<close>

definition existPreviousRow :: "nat \<Rightarrow> Table \<Rightarrow> TableRow option" where
  "existPreviousRow rowIndex table =
     (let row = table_content table ! rowIndex;
          findRowWithBottom = js_ceil (box_top (row_box row))
      in case filter (\<lambda>rowToFind.
                js_eq (js_ceil (js_add (box_top (row_box rowToFind)) (box_height (row_box rowToFind))))
                  findRowWithBottom) (table_content table) of
           [] \<Rightarrow> None
         | r # rs \<Rightarrow> Some r)"

definition existAdjacentRow :: "nat \<Rightarrow> Table \<Rightarrow> TableRow option" where
  "existAdjacentRow rowIndex table =
     (if rowIndex + 1 = length (table_content table) then existPreviousRow rowIndex table
      else
        (let row = table_content table ! rowIndex;
             findRowWithTop = js_ceil (js_add (box_top (row_box row)) (box_height (row_box row)))
         in case filter (\<lambda>rowToFind. js_eq (js_ceil (box_top (row_box rowToFind))) findRowWithTop)
                   (table_content table) of
              [] \<Rightarrow> None
            | r # rs \<Rightarrow> Some r))"

definition isFalseTable :: "Table \<Rightarrow> bool" where
  "isFalseTable table =
     (let isFalse = list_ex (\<lambda>index. existAdjacentRow index table = None)
                      [0..<length (table_content table)];
          only1Row = (length (table_content table) = 1)
      in only1Row \<or> isFalse)"

section \<open>Adding tables to the pages\<close>

text \<open>
  The first part of \<open>addTable\<close>: the table of a raw descriptor on a page, with its rows
  and, for a stream table with an expected content, its cells joined.
\<close>

definition reconstructTable :: "RawTable \<Rightarrow> Page \<Rightarrow> error + Table" where
  "reconstructTable tableData page =
     (case createRows tableData page of
        Inl e \<Rightarrow> Inl e
      | Inr content \<Rightarrow>
          (case (if td_content tableData \<noteq> None \<and> td_flavor tableData = ''stream''
                 then joinCellsByContent content (the (td_content tableData))
                 else Inr content) of
             Inl e \<Rightarrow> Inl e
           | Inr content' \<Rightarrow>
               Inr ((createTable tableData (box_height (page_box page)))
                      \<lparr>table_content := content'\<rparr>)))"

text \<open>
  \<open>addTable\<close>. The page is \<open>doc.pages[pageData.page - 1]\<close>, \<open>undefined\<close> (\<open>None\<close>) when
  that index is outside of the pages; \<open>page.box.height\<close> is then a TypeError. The page is
  changed in place: the result is the page after the call.
\<close>

definition addTable :: "RawTable \<Rightarrow> Page option \<Rightarrow> error + Page" where
  "addTable tableData pageOpt =
     (case pageOpt of
        None \<Rightarrow> Inl TypeError
      | Some page \<Rightarrow>
          (case reconstructTable tableData page of
             Inl e \<Rightarrow> Inl e
           | Inr table \<Rightarrow>
               Inr (if \<not> isFalseTable table
                    then page\<lparr>page_elements := page_elements page @ [ETable table]\<rparr>
                    else page)))"

definition pageAt :: "Document \<Rightarrow> int \<Rightarrow> Page option" where
  "pageAt doc i =
     (if 0 \<le> i \<and> i < int (length (doc_pages doc)) then Some (doc_pages doc ! nat i) else None)"

text \<open>The inner \<open>map\<close> of \<open>addTables\<close>: the tables of one entry of the payload.\<close>

fun addPageTables :: "RawTable list \<Rightarrow> int \<Rightarrow> Document \<Rightarrow> error + Document" where
  "addPageTables [] pageNo doc = Inr doc"
| "addPageTables (table # rest) pageNo doc =
     (case addTable table (pageAt doc (pageNo - 1)) of
        Inl e \<Rightarrow> Inl e
      | Inr page' \<Rightarrow>
          addPageTables rest pageNo
            (doc\<lparr>doc_pages := (doc_pages doc)[nat (pageNo - 1) := page']\<rparr>))"

fun addTables :: "PageData list \<Rightarrow> Document \<Rightarrow> error + Document" where
  "addTables [] doc = Inr doc"
| "addTables (pageData # rest) doc =
     (case addPageTables (pd_tables pageData) (pd_page pageData) doc of
        Inl e \<Rightarrow> Inl e
      | Inr doc' \<Rightarrow> addTables rest doc')"

section \<open>Removing the words used in cells\<close>

text \<open>
  The filter of \<open>removeWordsUsedInCells\<close>: \<open>(isWord && !isUsedInCell) || !isWord\<close>. The
  id of an element is read for every element, but decides only for a word.
\<close>

definition keepElement :: "nat list \<Rightarrow> Element \<Rightarrow> bool" where
  "keepElement cellWordsIds element =
     (case element of
        EWord w \<Rightarrow> (isWord element \<and> \<not> (word_id w \<in> set cellWordsIds)) \<or> \<not> isWord element
      | ETable t \<Rightarrow> \<not> isWord element
      | EOther n \<Rightarrow> (isWord element \<and> \<not> (n \<in> set cellWordsIds)) \<or> \<not> isWord element)"

definition cellWordsIdsOf :: "Page \<Rightarrow> nat list" where
  "cellWordsIdsOf page = map word_id (concat (map cell_content (getTableCells page)))"

definition removeWordsOfPage :: "Page \<Rightarrow> Page" where
  "removeWordsOfPage page =
     page\<lparr>page_elements := filter (keepElement (cellWordsIdsOf page)) (page_elements page)\<rparr>"

definition removeWordsUsedInCells :: "Document \<Rightarrow> Document" where
  "removeWordsUsedInCells document =
     document\<lparr>doc_pages := map removeWordsOfPage (doc_pages document)\<rparr>"

section \<open>The extractor and the main entry point\<close>

record Options =
  opt_pages :: "int list"
  opt_flavor :: string
  opt_table_areas :: "string list option"

record TableExtractorResult =
  res_stdout :: string
  res_stderr :: string
  res_status :: int

text \<open>The argument \<open>pages\<close> of the detector: the string \<open>all\<close> or the list of the pages.\<close>

datatype pagesArg = AllPages | PageList "int list"

text \<open>
  \<open>defaultExtractor.readTables\<close>, over the command \<open>CommandExecuter.detectTables\<close>, whose
  promise resolves to the standard output (\<open>Inr\<close>) or is rejected with an error text.
\<close>

definition defaultExtractor_readTables ::
  "(string \<Rightarrow> string \<Rightarrow> string \<Rightarrow> pagesArg \<Rightarrow> string list \<Rightarrow> string + string) \<Rightarrow>
   string \<Rightarrow> Options \<Rightarrow> TableExtractorResult" where
  "defaultExtractor_readTables detectTables inputFile options =
     (let pages = (if length (opt_pages options) \<noteq> 0 then PageList (opt_pages options)
                   else AllPages);
          flavor = (if \<not> (opt_flavor options \<in> set [''lattice'', ''stream'']) then ''lattice''
                    else opt_flavor options);
          lineScale = ''45''
      in case detectTables inputFile flavor lineScale pages
                (case opt_table_areas options of None \<Rightarrow> [] | Some areas \<Rightarrow> areas) of
           Inr out \<Rightarrow> \<lparr>res_stdout = out, res_stderr = [], res_status = 0\<rparr>
         | Inl err \<Rightarrow> \<lparr>res_stdout = [], res_stderr = err, res_status = 1\<rparr>)"

text \<open>
  What \<open>main\<close> calls outside of the module: \<open>fs.existsSync\<close>, the file type found by
  \<open>filetype(fs.readFileSync(...))\<close> (its extension, \<open>None\<close> for \<open>null\<close>), the extractor set
  by \<open>setExtractor\<close> (a rejected promise is \<open>Inl\<close>) and \<open>JSON.parse\<close>.
\<close>

record World =
  existsSync :: "string \<Rightarrow> error + bool"
  fileTypeExt :: "string \<Rightarrow> error + string option"
  readTables :: "string \<Rightarrow> Options \<Rightarrow> error + TableExtractorResult"
  JSON_parse :: "string \<Rightarrow> error + PageData list"

text \<open>The loop of \<open>main\<close> over \<open>this.options.runConfig\<close>.\<close>

fun runConfigs :: "World \<Rightarrow> Options list \<Rightarrow> Document \<Rightarrow> error + Document" where
  "runConfigs w [] doc = Inr doc"
| "runConfigs w (config # rest) doc =
     (case readTables w (doc_inputFile doc) config of
        Inl e \<Rightarrow> Inl e
      | Inr tableExtractor \<Rightarrow>
          (if res_status tableExtractor = 0 then
             (case JSON_parse w (res_stdout tableExtractor) of
                Inl e \<Rightarrow> Inl e
              | Inr tablesData \<Rightarrow>
                  (case addTables tablesData doc of
                     Inl e \<Rightarrow> Inl e
                   | Inr doc' \<Rightarrow> runConfigs w rest (removeWordsUsedInCells doc')))
           else runConfigs w rest doc))"

definition main :: "World \<Rightarrow> Options list \<Rightarrow> Document \<Rightarrow> error + Document" where
  "main w runConfig doc =
     (case existsSync w (doc_inputFile doc) of
        Inl err \<Rightarrow> Inr doc
      | Inr ex \<Rightarrow>
          (if \<not> ex then Inr doc
           else
             (case fileTypeExt w (doc_inputFile doc) of
                Inl e \<Rightarrow> Inl e
              | Inr fileType \<Rightarrow>
                  (if fileType = None \<or> fileType \<noteq> Some ''pdf'' then Inr doc
                   else if length (docTables doc) \<noteq> 0 then Inr doc
                   else runConfigs w runConfig doc))))"

section \<open>Example inputs\<close>

definition mkBox :: "real \<Rightarrow> real \<Rightarrow> real \<Rightarrow> real \<Rightarrow> BoundingBox" where
  "mkBox l t w h = \<lparr>box_left = Num l, box_top = Num t, box_width = Num w, box_height = Num h\<rparr>"

definition mkRaw :: "real \<Rightarrow> real \<Rightarrow> real \<Rightarrow> real \<Rightarrow> nat option \<Rightarrow> nat option \<Rightarrow> RawCell" where
  "mkRaw x y w h cs rs =
     \<lparr>raw_location = (Num x, Num y), raw_size = (Num w, Num h),
      raw_colSpan = cs, raw_rowSpan = rs\<rparr>"

definition mkWord :: "nat \<Rightarrow> BoundingBox \<Rightarrow> string \<Rightarrow> Word" where
  "mkWord n b t = \<lparr>word_id = n, word_box = b, word_text = t\<rparr>"

definition mkTable ::
  "(jsnum \<times> jsnum) list \<Rightarrow> (jsnum \<times> jsnum) list \<Rightarrow> RawCell option list list \<Rightarrow> RawTable" where
  "mkTable cols rows cells =
     \<lparr>td_location = (Num 0, Num 100), td_size = (Num 20, Num 20),
      td_cols = cols, td_rows = rows, td_cells = cells,
      td_content = None, td_flavor = ''lattice''\<rparr>"

text \<open>
  A page of height 100 with the words 1 (in the top left corner) and 2 (in the middle)
  and another element between them, and a document of this one page.
\<close>

definition exWord1 :: Word where
  "exWord1 = mkWord 1 (mkBox 1 1 2 2) ''foo''"

definition exWord2 :: Word where
  "exWord2 = mkWord 2 (mkBox 50 50 2 2) ''bar''"

definition exPage :: Page where
  "exPage = \<lparr>page_box = mkBox 0 0 100 100,
             page_elements = [EWord exWord1, EOther 5, EWord exWord2]\<rparr>"

definition exDoc :: Document where
  "exDoc = \<lparr>doc_inputFile = ''in.pdf'', doc_pages = [exPage]\<rparr>"

text \<open>
  A table of two columns and two rows at the top left of the page, in the detector's
  coordinates (the origin at the bottom left).
\<close>

definition exCols :: "(jsnum \<times> jsnum) list" where
  "exCols = [(Num 0, Num 10), (Num 10, Num 20)]"

definition exRows :: "(jsnum \<times> jsnum) list" where
  "exRows = [(Num 100, Num 90), (Num 90, Num 80)]"

definition exTable :: RawTable where
  "exTable = mkTable exCols exRows
     [[Some (mkRaw 0 100 10 10 None None), Some (mkRaw 10 100 10 10 None None)],
      [Some (mkRaw 0 90 10 10 None None), Some (mkRaw 10 90 10 10 None None)]]"

definition exPayload :: "PageData list" where
  "exPayload = [\<lparr>pd_page = 1, pd_tables = [exTable]\<rparr>]"

text \<open>
  A detector that fails for the lattice flavor and prints a payload for the stream
  flavor, behind the default extractor; the payload \<open>tables\<close> parses to \<open>exPayload\<close>,
  every other text is not JSON.
\<close>

definition exDetect :: "string \<Rightarrow> string \<Rightarrow> string \<Rightarrow> pagesArg \<Rightarrow> string list \<Rightarrow> string + string" where
  "exDetect inputFile flavor lineScale pages areas =
     (if flavor = ''stream'' then Inr ''tables'' else Inl ''failed'')"

definition exParse :: "string \<Rightarrow> error + PageData list" where
  "exParse out = (if out = ''tables'' then Inr exPayload else Inl SyntaxError)"

definition exWorld :: World where
  "exWorld = \<lparr>existsSync = (\<lambda>f. Inr True), fileTypeExt = (\<lambda>f. Inr (Some ''pdf'')),
              readTables = (\<lambda>f options. Inr (defaultExtractor_readTables exDetect f options)),
              JSON_parse = exParse\<rparr>"

definition exLattice :: Options where
  "exLattice = \<lparr>opt_pages = [], opt_flavor = ''lattice'', opt_table_areas = None\<rparr>"

definition exStream :: Options where
  "exStream = \<lparr>opt_pages = [1], opt_flavor = ''stream'', opt_table_areas = None\<rparr>"

text \<open>The table reconstructed from \<open>exTable\<close>, and a detection of a single row.\<close>

definition exReconstructed :: Table where
  "exReconstructed = projr (reconstructTable exTable exPage)"






definition exPageWithTable :: Page where
  "exPageWithTable = exPage\<lparr>page_elements := page_elements exPage @ [ETable exReconstructed]\<rparr>"

definition exDocAfter :: Document where
  "exDocAfter = removeWordsUsedInCells (exDoc\<lparr>doc_pages := [exPageWithTable]\<rparr>)"











text \<open>
  Tables with spans. In \<open>exColSpanTable\<close> the cell at column 1 of row 0 spans two of the
  three columns; in \<open>exRowSpanTable\<close> the cell at column 0 of row 0 spans two rows. In
  \<open>exConflictTable\<close> the position at column 1 of row 1 is covered twice, from above and
  from the left; in \<open>exWideTable\<close> the cell of the last column spans two columns.
  \<open>cellKinds\<close> shows the cells of reconstructed rows: \<open>None\<close> for a table cell, the
  direction for a spanned cell.
\<close>

definition exCols3 :: "(jsnum \<times> jsnum) list" where
  "exCols3 = [(Num 0, Num 10), (Num 10, Num 20), (Num 20, Num 30)]"

definition exColSpanCell :: RawCell where
  "exColSpanCell = mkRaw 10 100 20 10 (Some 2) None"

definition exColSpanRow :: "RawCell option list" where
  "exColSpanRow = [Some (mkRaw 0 100 10 10 None None), Some exColSpanCell]"

definition exColSpanTable :: RawTable where
  "exColSpanTable = mkTable exCols3 exRows
     [exColSpanRow,
      [Some (mkRaw 0 90 10 10 None None), Some (mkRaw 10 90 10 10 None None),
       Some (mkRaw 20 90 10 10 None None)]]"

definition exRowSpanCell :: RawCell where
  "exRowSpanCell = mkRaw 0 100 10 20 None (Some 2)"

definition exRowSpanRow :: "RawCell option list" where
  "exRowSpanRow = [Some exRowSpanCell, Some (mkRaw 10 100 10 10 None None)]"

definition exRowSpanTable :: RawTable where
  "exRowSpanTable = mkTable exCols exRows
     [exRowSpanRow, [None, Some (mkRaw 10 90 10 10 None None)]]"

definition exConflictTable :: RawTable where
  "exConflictTable = mkTable exCols exRows
     [[Some (mkRaw 0 100 10 10 None None), Some (mkRaw 10 100 10 20 None (Some 2))],
      [Some (mkRaw 0 90 20 10 (Some 2) None)]]"

definition exWideTable :: RawTable where
  "exWideTable = mkTable exCols exRows
     [[Some (mkRaw 0 100 10 10 None None), Some (mkRaw 10 100 20 10 (Some 2) None)],
      [Some (mkRaw 0 90 10 10 None None), Some (mkRaw 10 90 10 10 None None)]]"

definition cellKinds :: "error + TableRow list \<Rightarrow> direction option list list" where
  "cellKinds res =
     (case res of
        Inl e \<Rightarrow> []
      | Inr trs \<Rightarrow>
          map (\<lambda>r. map (\<lambda>c. case c of TableCell b ws cs rs \<Rightarrow> None
                                | SpannedTableCell b d \<Rightarrow> Some d) (row_content r)) trs)"

text \<open>
  The loop of \<open>createRowCells\<close> on the first row of \<open>exColSpanTable\<close> from column 1 on,
  after the table cell of column 0; the same loop on the first row of \<open>exRowSpanTable\<close>;
  and the rows after the first of \<open>exRowSpanTable\<close>.
\<close>

definition exColSpanRun :: "Cell list \<times> SpannedCellPosition list" where
  "exColSpanRun =
     projr (createRowCells_from 1 exColSpanRow 0 (Num 100) (getWords exPage) [] exCols3 exRows
              [newTableCell (mkRaw 0 100 10 10 None None) (Num 100) (getWords exPage)])"

definition exRowSpanRun :: "Cell list \<times> SpannedCellPosition list" where
  "exRowSpanRun =
     projr (createRowCells_from 0 exRowSpanRow 0 (Num 100) (getWords exPage) [] exCols exRows [])"

definition exRowSpanRest :: "TableRow list" where
  "exRowSpanRest =
     projr (createRows_from [[None, Some (mkRaw 10 90 10 10 None None)]] 1 (Num 100)
              (getWords exPage) (snd exRowSpanRun) exCols exRows)"




section \<open>The properties in the words of the spec\<close>













definition noCellWordOnPage :: "Page \<Rightarrow> bool" where
  "noCellWordOnPage page =
     (\<forall>w \<in> set (getWords page). word_id w \<notin> set (cellWordsIdsOf page))"

definition nonWords :: "Page \<Rightarrow> Element list" where
  "nonWords page = filter (\<lambda>e. \<not> isWord e) (page_elements page)"

definition pageGrows :: "Page \<Rightarrow> Page \<Rightarrow> bool" where
  "pageGrows page page' = (\<exists>ts. nonWords page' = nonWords page @ map ETable ts)"

definition docGrows :: "Document \<Rightarrow> Document \<Rightarrow> bool" where
  "docGrows doc doc' =
     (length (doc_pages doc') = length (doc_pages doc) \<and>
      (\<forall>i < length (doc_pages doc). pageGrows (doc_pages doc ! i) (doc_pages doc' ! i)))"

text \<open>The test of \<open>createRowCells\<close> for a registered position: \<open>sc.x === x && sc.y === y\<close>.\<close>

abbreviation atPos :: "nat \<Rightarrow> nat \<Rightarrow> SpannedCellPosition \<Rightarrow> bool" where
  "atPos x y \<equiv> (\<lambda>sc. sc_x sc = x \<and> sc_y sc = y)"
















section \<open>The validity heuristic decides what is added\<close>






section \<open>The cells that the reconstruction makes\<close>




section \<open>The cells of a row and the columns of the grid\<close>











section \<open>Spans and spanned cells\<close>

lemma find_append_Some: "find P xs = Some a \<Longrightarrow> find P (xs @ ys) = Some a"
  by (induction xs) (auto split: if_splits)

lemma find_append_None: "find P xs = None \<Longrightarrow> find P (xs @ ys) = find P ys"
  by (induction xs) (auto split: if_splits)

lemma spannedBy_member:
  "(\<lparr>sc_x = colIndex + dx, sc_y = rowIndex + dy, sc_direction = d\<rparr>
      \<in> set (spannedBy cell colIndex rowIndex)) =
   (dx < spanOf (raw_colSpan cell) \<and> dy < spanOf (raw_rowSpan cell) \<and> (dx \<noteq> 0 \<or> dy \<noteq> 0) \<and>
    d = (if dx > 0 then DirLeft else DirTop))"
  by (auto simp: spannedBy_def split: if_splits)

lemma spannedBy_cases:
  "sc \<in> set (spannedBy cell colIndex rowIndex) \<Longrightarrow>
   \<exists>dx dy. sc = \<lparr>sc_x = colIndex + dx, sc_y = rowIndex + dy,
                  sc_direction = (if dx > 0 then DirLeft else DirTop)\<rparr> \<and>
           dx < spanOf (raw_colSpan cell) \<and> dy < spanOf (raw_rowSpan cell) \<and> (dx \<noteq> 0 \<or> dy \<noteq> 0)"
  by (auto simp: spannedBy_def split: if_splits)

lemma find_spannedBy:
  assumes "dx < spanOf (raw_colSpan cell)" and "dy < spanOf (raw_rowSpan cell)"
    and "dx \<noteq> 0 \<or> dy \<noteq> 0"
  shows "find (atPos (colIndex + dx) (rowIndex + dy)) (spannedBy cell colIndex rowIndex)
         = Some \<lparr>sc_x = colIndex + dx, sc_y = rowIndex + dy,
                  sc_direction = (if dx > 0 then DirLeft else DirTop)\<rparr>"
proof -
  let ?t = "\<lparr>sc_x = colIndex + dx, sc_y = rowIndex + dy,
             sc_direction = (if dx > 0 then DirLeft else DirTop)\<rparr>"
  have m: "?t \<in> set (spannedBy cell colIndex rowIndex)"
    using assms spannedBy_member [of colIndex dx rowIndex dy "if dx > 0 then DirLeft else DirTop" cell]
    by simp
  have "\<exists>sc \<in> set (spannedBy cell colIndex rowIndex). atPos (colIndex + dx) (rowIndex + dy) sc"
    using m by (intro bexI [of _ ?t]) simp_all
  then have "find (atPos (colIndex + dx) (rowIndex + dy)) (spannedBy cell colIndex rowIndex) \<noteq> None"
    unfolding find_None_iff by blast
  then obtain sc where f: "find (atPos (colIndex + dx) (rowIndex + dy)) (spannedBy cell colIndex rowIndex) = Some sc"
    by blast
  then have "sc \<in> set (spannedBy cell colIndex rowIndex)" and p: "atPos (colIndex + dx) (rowIndex + dy) sc"
    by (auto simp: find_Some_iff)
  from spannedBy_cases [OF this(1)] p have "sc = ?t"
    by auto
  with f show ?thesis by simp
qed


lemma createRowCells_from_mono:
  "createRowCells_from colIndex row rowIndex pageHeight pageWords sp cols rows cells = Inr (out, sp') \<Longrightarrow>
   (\<exists>more. sp' = sp @ more) \<and> (\<exists>cs. out = cells @ cs)"
proof (induction colIndex row rowIndex pageHeight pageWords sp cols rows cells
    rule: createRowCells_from.induct)
  case (1 colIndex row rowIndex pageHeight pageWords spannedCells cols rows cells)
  show ?case
  proof (cases "colIndex < length cols")
    case False
    with "1.prems" show ?thesis by (simp add: createRowCells_from.simps)
  next
    case True
    show ?thesis
    proof (cases "find (atPos colIndex rowIndex) spannedCells")
      case (Some spannedCell)
      show ?thesis
      proof (cases "rowIndex < length rows")
        case False
        with True Some "1.prems" show ?thesis by (simp add: createRowCells_from.simps)
      next
        case inr: True
        from "1.prems" True Some inr
        have "createRowCells_from (Suc colIndex) (padRow row (length cols) colIndex) rowIndex
                pageHeight pageWords spannedCells cols rows
                (cells @ [SpannedTableCell (Some (slotBox cols rows pageHeight colIndex rowIndex))
                            (sc_direction spannedCell)]) = Inr (out, sp')"
          by (simp add: createRowCells_from.simps)
        from "1.IH"(3) [OF True Some inr this] show ?thesis by auto
      qed
    next
      case None
      show ?thesis
      proof (cases "rawAt row colIndex")
        case rn: None
        from "1.prems" True None rn
        have "createRowCells_from (Suc colIndex) row rowIndex pageHeight pageWords
                spannedCells cols rows cells = Inr (out, sp')"
          by (simp add: createRowCells_from.simps)
        from "1.IH"(1) [OF True None rn this] show ?thesis .
      next
        case (Some cell)
        from "1.prems" True None Some
        have "createRowCells_from (Suc colIndex) row rowIndex pageHeight pageWords
                (spannedCells @ spannedBy cell colIndex rowIndex) cols rows
                (cells @ [newTableCell cell pageHeight pageWords]) = Inr (out, sp')"
          by (simp add: createRowCells_from.simps)
        from "1.IH"(2) [OF True None Some this] show ?thesis by auto
      qed
    qed
  qed
qed

lemma createRowCells_from_emits:
  "createRowCells_from colIndex row rowIndex pageHeight pageWords sp cols rows cells = Inr (out, sp') \<Longrightarrow>
   colIndex \<le> x \<Longrightarrow> x < length cols \<Longrightarrow> find (atPos x rowIndex) sp = Some sc \<Longrightarrow>
   SpannedTableCell (Some (slotBox cols rows pageHeight x rowIndex)) (sc_direction sc) \<in> set out"
proof (induction colIndex row rowIndex pageHeight pageWords sp cols rows cells
    rule: createRowCells_from.induct)
  case (1 colIndex row rowIndex pageHeight pageWords spannedCells cols rows cells)
  have True: "colIndex < length cols" using "1.prems"(2,3) by simp
  show ?case
  proof (cases "find (atPos colIndex rowIndex) spannedCells")
    case (Some spannedCell)
    show ?thesis
    proof (cases "rowIndex < length rows")
      case False
      with True Some "1.prems" show ?thesis by (simp add: createRowCells_from.simps)
    next
      case inr: True
      from "1.prems" True Some inr
      have r: "createRowCells_from (Suc colIndex) (padRow row (length cols) colIndex) rowIndex
              pageHeight pageWords spannedCells cols rows
              (cells @ [SpannedTableCell (Some (slotBox cols rows pageHeight colIndex rowIndex))
                          (sc_direction spannedCell)]) = Inr (out, sp')"
        by (simp add: createRowCells_from.simps)
      show ?thesis
      proof (cases "colIndex = x")
        case eq: True
        with Some "1.prems"(4) have "spannedCell = sc" by simp
        with createRowCells_from_mono [OF r] eq show ?thesis by auto
      next
        case False
        with "1.prems"(2) have "Suc colIndex \<le> x" by simp
        from "1.IH"(3) [OF True Some inr r this "1.prems"(3,4)] show ?thesis .
      qed
    qed
  next
    case None
    with "1.prems"(4) have "colIndex \<noteq> x" by auto
    with "1.prems"(2) have le: "Suc colIndex \<le> x" by simp
    show ?thesis
    proof (cases "rawAt row colIndex")
      case rn: None
      from "1.prems" True None rn
      have "createRowCells_from (Suc colIndex) row rowIndex pageHeight pageWords
              spannedCells cols rows cells = Inr (out, sp')"
        by (simp add: createRowCells_from.simps)
      from "1.IH"(1) [OF True None rn this le "1.prems"(3,4)] show ?thesis .
    next
      case (Some cell)
      from "1.prems" True None Some
      have r: "createRowCells_from (Suc colIndex) row rowIndex pageHeight pageWords
              (spannedCells @ spannedBy cell colIndex rowIndex) cols rows
              (cells @ [newTableCell cell pageHeight pageWords]) = Inr (out, sp')"
        by (simp add: createRowCells_from.simps)
      have "find (atPos x rowIndex) (spannedCells @ spannedBy cell colIndex rowIndex) = Some sc"
        using "1.prems"(4) by (rule find_append_Some)
      from "1.IH"(2) [OF True None Some r le "1.prems"(3) this] show ?thesis .
    qed
  qed
qed

lemma createRows_from_emits:
  "createRows_from raws rowIndex pageHeight pageWords sp cols rows = Inr trs \<Longrightarrow>
   rowIndex \<le> y \<Longrightarrow> y - rowIndex < length raws \<Longrightarrow> x < length cols \<Longrightarrow>
   find (atPos x y) sp = Some sc \<Longrightarrow>
   SpannedTableCell (Some (slotBox cols rows pageHeight x y)) (sc_direction sc)
     \<in> set (row_content (trs ! (y - rowIndex)))"
proof (induction raws arbitrary: rowIndex sp trs)
  case Nil
  then show ?case by simp
next
  case (Cons row rest)
  from Cons.prems(1) obtain tableCells sp' trs' where
    a: "createRowCells_from 0 row rowIndex pageHeight pageWords sp cols rows [] = Inr (tableCells, sp')" and
    b: "createRows_from rest (Suc rowIndex) pageHeight pageWords sp' cols rows = Inr trs'" and
    c: "trs = newTableRow tableCells # trs'"
    by (auto simp: createRowCells_def split: sum.splits prod.splits)
  have rc: "row_content (newTableRow tableCells) = tableCells"
    by (simp add: newTableRow_def Let_def)
  show ?case
  proof (cases "y = rowIndex")
    case True
    from createRowCells_from_emits [OF a _ Cons.prems(4)] Cons.prems(5) True
    have "SpannedTableCell (Some (slotBox cols rows pageHeight x y)) (sc_direction sc) \<in> set tableCells"
      by simp
    with True c rc show ?thesis by simp
  next
    case False
    with Cons.prems(2) have le: "Suc rowIndex \<le> y" by simp
    from Cons.prems(3) le have lt: "y - Suc rowIndex < length rest" by simp
    from createRowCells_from_mono [OF a] obtain more where "sp' = sp @ more" by blast
    with Cons.prems(5) have f: "find (atPos x y) sp' = Some sc"
      by (simp add: find_append_Some)
    from Cons.IH [OF b le lt Cons.prems(4) f]
    have "SpannedTableCell (Some (slotBox cols rows pageHeight x y)) (sc_direction sc)
            \<in> set (row_content (trs' ! (y - Suc rowIndex)))" .
    moreover have "trs ! (y - rowIndex) = trs' ! (y - Suc rowIndex)"
      using c le by (simp add: Suc_diff_le)
    ultimately show ?thesis by simp
  qed
qed



section \<open>The box of a row\<close>

















section \<open>The merge groups\<close>




















text \<open>
  Claim C8, as stated, fails. In \<open>exConflictTable\<close> the raw cell at column 0 of row 1
  spans two columns, but the position to its right was registered before, by the cell
  above that spans two rows: the spanned cell there is tagged \<open>top\<close>, not \<open>left\<close>. In
  \<open>exWideTable\<close> the raw cell of the last column spans two columns, and no spanned cell
  is made at all.
\<close>

theorem span_misses_spanned_cell:
  "raw_colSpan (the (td_cells exConflictTable ! 1 ! 0)) = Some 2 \<and>
   cellKinds (createRows exConflictTable exPage) = [[None, None], [None, Some DirTop]] \<and>
   raw_colSpan (the (td_cells exWideTable ! 0 ! 1)) = Some 2 \<and>
   cellKinds (createRows exWideTable exPage) = [[None, None], [None, None]]"
proof -
  have a: "raw_colSpan (the (td_cells exConflictTable ! 1 ! 0)) = Some 2"
    by code_simp
  have b: "cellKinds (createRows exConflictTable exPage) = [[None, None], [None, Some DirTop]]"
    by code_simp
  have c: "raw_colSpan (the (td_cells exWideTable ! 0 ! 1)) = Some 2"
    by code_simp
  have d: "cellKinds (createRows exWideTable exPage) = [[None, None], [None, None]]"
    by code_simp
  show ?thesis using a b c d by blast
qed

text \<open>
  Claim C8, amended. Let the column loop stand at a position \<open>(colIndex, rowIndex)\<close> that
  is not registered as spanned and whose raw cell is \<open>cell\<close>, and let \<open>(dx, dy)\<close> be an
  offset in the span of the cell (each span 1 when absent) other than \<open>(0, 0)\<close>, to a
  column of the grid, whose position no earlier cell has registered. Then the position
  \<open>(colIndex + dx, rowIndex + dy)\<close> is registered with the tag \<open>left\<close> when \<open>dx > 0\<close>
  and \<open>top\<close> otherwise, and the row of that position, once it is reconstructed, holds
  a spanned cell with the box of that grid position and with this tag: the row of the
  loop itself for \<open>dy = 0\<close>, and for \<open>dy > 0\<close> the row \<open>dy - 1\<close> of the rows that
  follow.
\<close>

theorem span_offsets_become_spanned_cells:
  assumes "colIndex < length cols"
    and "find (atPos colIndex rowIndex) sp = None"
    and "rawAt row colIndex = Some cell"
    and "dx < spanOf (raw_colSpan cell)" and "dy < spanOf (raw_rowSpan cell)"
    and "dx \<noteq> 0 \<or> dy \<noteq> 0"
    and "find (atPos (colIndex + dx) (rowIndex + dy)) sp = None"
    and "colIndex + dx < length cols"
    and "createRowCells_from colIndex row rowIndex pageHeight pageWords sp cols rows cells
           = Inr (out, sp')"
  shows "find (atPos (colIndex + dx) (rowIndex + dy)) sp'
           = Some \<lparr>sc_x = colIndex + dx, sc_y = rowIndex + dy,
                    sc_direction = (if dx > 0 then DirLeft else DirTop)\<rparr> \<and>
         (dy = 0 \<longrightarrow>
            SpannedTableCell (Some (slotBox cols rows pageHeight (colIndex + dx) rowIndex)) DirLeft
              \<in> set out) \<and>
         (dy > 0 \<and> dy - 1 < length rest \<and>
          createRows_from rest (Suc rowIndex) pageHeight pageWords sp' cols rows = Inr trs \<longrightarrow>
            SpannedTableCell (Some (slotBox cols rows pageHeight (colIndex + dx) (rowIndex + dy)))
                (if dx > 0 then DirLeft else DirTop)
              \<in> set (row_content (trs ! (dy - 1))))"
proof -
  let ?t = "\<lparr>sc_x = colIndex + dx, sc_y = rowIndex + dy,
             sc_direction = (if dx > 0 then DirLeft else DirTop)\<rparr>"
  let ?sp = "sp @ spannedBy cell colIndex rowIndex"
  from assms(1,2,3,9)
  have r: "createRowCells_from (Suc colIndex) row rowIndex pageHeight pageWords ?sp cols rows
             (cells @ [newTableCell cell pageHeight pageWords]) = Inr (out, sp')"
    by (simp add: createRowCells_from.simps)
  have f: "find (atPos (colIndex + dx) (rowIndex + dy)) ?sp = Some ?t"
    using find_append_None [OF assms(7)] find_spannedBy [OF assms(4,5,6)] by simp
  from createRowCells_from_mono [OF r] obtain more where m: "sp' = ?sp @ more" by blast
  have g: "find (atPos (colIndex + dx) (rowIndex + dy)) sp' = Some ?t"
    unfolding m using f by (rule find_append_Some)
  have same: "dy = 0 \<longrightarrow>
      SpannedTableCell (Some (slotBox cols rows pageHeight (colIndex + dx) rowIndex)) DirLeft \<in> set out"
  proof
    assume z: "dy = 0"
    with assms(6) have p: "0 < dx" by simp
    then have "Suc colIndex \<le> colIndex + dx" by simp
    from createRowCells_from_emits [OF r this assms(8)] f z p show
      "SpannedTableCell (Some (slotBox cols rows pageHeight (colIndex + dx) rowIndex)) DirLeft \<in> set out"
      by simp
  qed
  have later: "dy > 0 \<and> dy - 1 < length rest \<and>
          createRows_from rest (Suc rowIndex) pageHeight pageWords sp' cols rows = Inr trs \<longrightarrow>
            SpannedTableCell (Some (slotBox cols rows pageHeight (colIndex + dx) (rowIndex + dy)))
                (if dx > 0 then DirLeft else DirTop)
              \<in> set (row_content (trs ! (dy - 1)))"
  proof
    assume h: "dy > 0 \<and> dy - 1 < length rest \<and>
          createRows_from rest (Suc rowIndex) pageHeight pageWords sp' cols rows = Inr trs"
    then have le: "Suc rowIndex \<le> rowIndex + dy" and lt: "rowIndex + dy - Suc rowIndex < length rest"
      and c: "createRows_from rest (Suc rowIndex) pageHeight pageWords sp' cols rows = Inr trs"
      by simp_all
    from createRows_from_emits [OF c le lt assms(8) g]
    show "SpannedTableCell (Some (slotBox cols rows pageHeight (colIndex + dx) (rowIndex + dy)))
                (if dx > 0 then DirLeft else DirTop)
              \<in> set (row_content (trs ! (dy - 1)))"
      by simp
  qed
  from g same later show ?thesis by blast
qed

theorem span_offsets_become_spanned_cells_witness:
  "cellKinds (createRows exColSpanTable exPage) = [[None, None, Some DirLeft], [None, None, None]] \<and>
   cellKinds (createRows exRowSpanTable exPage) = [[None, None], [Some DirTop, None]] \<and>
   rawAt exColSpanRow 1 = Some exColSpanCell \<and>
   spanOf (raw_colSpan exColSpanCell) = 2 \<and>
   createRowCells_from 1 exColSpanRow 0 (Num 100) (getWords exPage) [] exCols3 exRows
     [newTableCell (mkRaw 0 100 10 10 None None) (Num 100) (getWords exPage)]
     = Inr (fst exColSpanRun, snd exColSpanRun) \<and>
   SpannedTableCell (Some (slotBox exCols3 exRows (Num 100) 2 0)) DirLeft
     \<in> set (fst exColSpanRun) \<and>
   rawAt exRowSpanRow 0 = Some exRowSpanCell \<and>
   spanOf (raw_rowSpan exRowSpanCell) = 2 \<and>
   createRowCells_from 0 exRowSpanRow 0 (Num 100) (getWords exPage) [] exCols exRows []
     = Inr (fst exRowSpanRun, snd exRowSpanRun) \<and>
   createRows_from [[None, Some (mkRaw 10 90 10 10 None None)]] 1 (Num 100) (getWords exPage)
     (snd exRowSpanRun) exCols exRows = Inr exRowSpanRest \<and>
   SpannedTableCell (Some (slotBox exCols exRows (Num 100) 0 1)) DirTop
     \<in> set (row_content (exRowSpanRest ! 0))"
proof -
  have k1: "cellKinds (createRows exColSpanTable exPage)
              = [[None, None, Some DirLeft], [None, None, None]]"
    by code_simp
  have k2: "cellKinds (createRows exRowSpanTable exPage) = [[None, None], [Some DirTop, None]]"
    by code_simp
  have c1: "(1::nat) < length exCols3" by (simp add: exCols3_def)
  have c2: "find (atPos 1 0) [] = None" by simp
  have c3: "rawAt exColSpanRow 1 = Some exColSpanCell"
    by (simp add: rawAt_def exColSpanRow_def)
  have c4: "spanOf (raw_colSpan exColSpanCell) = 2"
    by (simp add: spanOf_def exColSpanCell_def mkRaw_def)
  have c5: "(0::nat) < spanOf (raw_rowSpan exColSpanCell)"
    by (simp add: spanOf_def exColSpanCell_def mkRaw_def)
  have c6: "find (atPos (1 + 1) (0 + 0)) [] = None" by simp
  have c7: "(1::nat) + 1 < length exCols3" by (simp add: exCols3_def)
  have c8: "createRowCells_from 1 exColSpanRow 0 (Num 100) (getWords exPage) [] exCols3 exRows
     [newTableCell (mkRaw 0 100 10 10 None None) (Num 100) (getWords exPage)]
     = Inr (fst exColSpanRun, snd exColSpanRun)"
    unfolding exColSpanRun_def by code_simp
  have c4': "(1::nat) < spanOf (raw_colSpan exColSpanCell)" using c4 by simp
  have c9: "(1::nat) \<noteq> 0 \<or> (0::nat) \<noteq> 0" by simp
  from span_offsets_become_spanned_cells [OF c1 c2 c3 c4' c5 c9 c6 c7 c8]
  have e1: "SpannedTableCell (Some (slotBox exCols3 exRows (Num 100) 2 0)) DirLeft
              \<in> set (fst exColSpanRun)"
    by (simp add: numeral_2_eq_2)
  have r1: "(0::nat) < length exCols" by (simp add: exCols_def)
  have r2: "find (atPos 0 0) [] = None" by simp
  have r3: "rawAt exRowSpanRow 0 = Some exRowSpanCell"
    by (simp add: rawAt_def exRowSpanRow_def)
  have r4: "(0::nat) < spanOf (raw_colSpan exRowSpanCell)"
    by (simp add: spanOf_def exRowSpanCell_def mkRaw_def)
  have r5: "spanOf (raw_rowSpan exRowSpanCell) = 2"
    by (simp add: spanOf_def exRowSpanCell_def mkRaw_def)
  have r5': "(1::nat) < spanOf (raw_rowSpan exRowSpanCell)" using r5 by simp
  have r6: "find (atPos (0 + 0) (0 + 1)) [] = None" by simp
  have r7: "(0::nat) + 0 < length exCols" by (simp add: exCols_def)
  have r8: "createRowCells_from 0 exRowSpanRow 0 (Num 100) (getWords exPage) [] exCols exRows []
     = Inr (fst exRowSpanRun, snd exRowSpanRun)"
    unfolding exRowSpanRun_def by code_simp
  have r9: "(0::nat) \<noteq> 0 \<or> (1::nat) \<noteq> 0" by simp
  have r10: "createRows_from [[None, Some (mkRaw 10 90 10 10 None None)]] 1 (Num 100)
     (getWords exPage) (snd exRowSpanRun) exCols exRows = Inr exRowSpanRest"
    unfolding exRowSpanRest_def exRowSpanRun_def by code_simp
  from span_offsets_become_spanned_cells [OF r1 r2 r3 r4 r5' r9 r6 r7 r8,
      where rest = "[[None, Some (mkRaw 10 90 10 10 None None)]]" and trs = exRowSpanRest] r10
  have e2: "SpannedTableCell (Some (slotBox exCols exRows (Num 100) 0 1)) DirTop
              \<in> set (row_content (exRowSpanRest ! 0))"
    by simp
  show ?thesis
    using k1 k2 c3 c4 c8 e1 r3 r5 r8 r10 e2 by blast
qed



section \<open>Failed passes\<close>

lemma defaultExtractor_failure:
  "detectTables inputFile
     (if \<not> (opt_flavor options \<in> set [''lattice'', ''stream'']) then ''lattice''
      else opt_flavor options)
     ''45''
     (if length (opt_pages options) \<noteq> 0 then PageList (opt_pages options) else AllPages)
     (case opt_table_areas options of None \<Rightarrow> [] | Some areas \<Rightarrow> areas) = Inl err \<Longrightarrow>
   res_status (defaultExtractor_readTables detectTables inputFile options) = 1"
  by (simp add: defaultExtractor_readTables_def Let_def)

text \<open>
  Claim C6. A configured pass on which the extractor reports a failure (a status other
  than 0) changes nothing: run alone it returns the document as it was, and run before
  other passes, these go on from the unchanged document. The default extractor reports
  the status 1 when the detector fails (\<open>defaultExtractor_failure\<close>).
\<close>

theorem failed_pass_is_skipped:
  assumes "readTables w (doc_inputFile doc) config = Inr r" and "res_status r \<noteq> 0"
  shows "runConfigs w [config] doc = Inr doc \<and>
         runConfigs w (config # rest) doc = runConfigs w rest doc"
  using assms by simp

theorem failed_pass_is_skipped_witness:
  "readTables exWorld (doc_inputFile exDoc) exLattice
     = Inr (defaultExtractor_readTables exDetect ''in.pdf'' exLattice) \<and>
   res_status (defaultExtractor_readTables exDetect ''in.pdf'' exLattice) = 1 \<and>
   runConfigs exWorld [exLattice] exDoc = Inr exDoc \<and>
   runConfigs exWorld [exLattice, exStream] exDoc = runConfigs exWorld [exStream] exDoc \<and>
   runConfigs exWorld [exStream] exDoc \<noteq> Inr exDoc"
proof -
  have r: "readTables exWorld (doc_inputFile exDoc) exLattice
             = Inr (defaultExtractor_readTables exDetect ''in.pdf'' exLattice)"
    by (simp add: exWorld_def exDoc_def)
  have s: "res_status (defaultExtractor_readTables exDetect ''in.pdf'' exLattice) = 1"
    by (rule defaultExtractor_failure) (simp add: exDetect_def exLattice_def)
  have n: "res_status (defaultExtractor_readTables exDetect ''in.pdf'' exLattice) \<noteq> 0"
    using s by simp
  have c: "runConfigs exWorld [exStream] exDoc \<noteq> Inr exDoc"
    by code_simp
  show ?thesis
    using r s c failed_pass_is_skipped [OF r n, of "[exStream]"] by simp
qed

section \<open>The words of a cell\<close>




section \<open>The page of a payload entry\<close>

lemma addTable_page_box:
  "addTable tableData (Some page) = Inr page' \<Longrightarrow>
   page_box page' = page_box page \<and>
   (\<exists>ts. page_elements page' = page_elements page @ map ETable ts)"
  apply (auto simp: addTable_def split: sum.splits if_splits)
  subgoal for t by (rule exI [of _ "[t]"]) simp
  done

lemma addPageTables_frame:
  "addPageTables tables p doc = Inr doc' \<Longrightarrow>
   length (doc_pages doc') = length (doc_pages doc) \<and>
   doc_inputFile doc' = doc_inputFile doc \<and>
   (\<forall>i. i \<noteq> nat (p - 1) \<longrightarrow> doc_pages doc' ! i = doc_pages doc ! i) \<and>
   page_box (doc_pages doc' ! nat (p - 1)) = page_box (doc_pages doc ! nat (p - 1)) \<and>
   (\<exists>ts. page_elements (doc_pages doc' ! nat (p - 1))
           = page_elements (doc_pages doc ! nat (p - 1)) @ map ETable ts)"
proof (induction tables arbitrary: doc)
  case Nil
  then show ?case by (auto intro: exI [of _ "[]"])
next
  case (Cons t ts)
  from Cons.prems obtain page' where
    a: "addTable t (pageAt doc (p - 1)) = Inr page'" and
    r: "addPageTables ts p (doc\<lparr>doc_pages := (doc_pages doc)[nat (p - 1) := page']\<rparr>) = Inr doc'"
    by (auto split: sum.splits)
  from a obtain page where pg: "pageAt doc (p - 1) = Some page"
    by (cases "pageAt doc (p - 1)") (auto simp: addTable_def)
  then have rng: "nat (p - 1) < length (doc_pages doc)" and pe: "page = doc_pages doc ! nat (p - 1)"
    by (auto simp: pageAt_def split: if_splits)
  from a pg have "addTable t (Some page) = Inr page'" by simp
  from addTable_page_box [OF this] obtain us where
    b: "page_box page' = page_box page" and e: "page_elements page' = page_elements page @ map ETable us"
    by blast
  from Cons.IH [OF r] obtain vs where
    ih: "length (doc_pages doc') = length (doc_pages doc)"
        "doc_inputFile doc' = doc_inputFile doc"
        "\<forall>i. i \<noteq> nat (p - 1) \<longrightarrow> doc_pages doc' ! i = (doc_pages doc)[nat (p - 1) := page'] ! i"
        "page_box (doc_pages doc' ! nat (p - 1)) = page_box ((doc_pages doc)[nat (p - 1) := page'] ! nat (p - 1))"
        "page_elements (doc_pages doc' ! nat (p - 1))
           = page_elements ((doc_pages doc)[nat (p - 1) := page'] ! nat (p - 1)) @ map ETable vs"
    by auto
  have el: "page_elements (doc_pages doc' ! nat (p - 1))
          = page_elements (doc_pages doc ! nat (p - 1)) @ map ETable (us @ vs)"
    using ih(5) rng e pe by simp
  show ?case
  proof (intro conjI)
    show "length (doc_pages doc') = length (doc_pages doc)" using ih(1) by simp
    show "doc_inputFile doc' = doc_inputFile doc" using ih(2) by simp
    show "\<forall>i. i \<noteq> nat (p - 1) \<longrightarrow> doc_pages doc' ! i = doc_pages doc ! i"
      using ih(3) by simp
    show "page_box (doc_pages doc' ! nat (p - 1)) = page_box (doc_pages doc ! nat (p - 1))"
      using ih(4) rng b pe by simp
    show "\<exists>ts. page_elements (doc_pages doc' ! nat (p - 1))
           = page_elements (doc_pages doc ! nat (p - 1)) @ map ETable ts"
      using el by blast
  qed
qed






section \<open>Words used in cells\<close>

lemma keepElement_nonWord: "\<not> isWord e \<Longrightarrow> keepElement ids e"
  by (cases e) (simp_all add: keepElement_def)

lemma not_kept_no_table: "\<not> keepElement ids e \<Longrightarrow> tablesOfElement e = []"
  by (cases e) (simp_all add: keepElement_def)

lemma tables_filter_keep:
  "concat (map tablesOfElement (filter (keepElement ids) es)) = concat (map tablesOfElement es)"
  by (induction es) (simp_all add: not_kept_no_table)

lemma getTables_removeWordsOfPage: "getTables (removeWordsOfPage page) = getTables page"
  by (simp add: getTables_def removeWordsOfPage_def tables_filter_keep)

lemma cellWordsIdsOf_removeWordsOfPage:
  "cellWordsIdsOf (removeWordsOfPage page) = cellWordsIdsOf page"
  by (simp add: cellWordsIdsOf_def getTableCells_def getTables_removeWordsOfPage)

lemma keepElement_word:
  "keepElement ids e \<Longrightarrow> w \<in> set (wordsOfElement e) \<Longrightarrow> word_id w \<notin> set ids"
  by (cases e) (simp_all add: keepElement_def)

lemma noCellWord_removeWordsOfPage: "noCellWordOnPage (removeWordsOfPage page)"
  unfolding noCellWordOnPage_def cellWordsIdsOf_removeWordsOfPage
  by (auto simp: getWords_def removeWordsOfPage_def dest: keepElement_word)

lemma nonWords_removeWordsOfPage: "nonWords (removeWordsOfPage page) = nonWords page"
proof -
  have "filter (\<lambda>e. \<not> isWord e) (filter (keepElement ids) es) = filter (\<lambda>e. \<not> isWord e) es"
    for ids es
    by (induction es) (auto simp: keepElement_nonWord)
  then show ?thesis by (simp add: nonWords_def removeWordsOfPage_def)
qed

lemma pageGrows_refl: "pageGrows p p"
  unfolding pageGrows_def by (rule exI [of _ "[]"]) simp

lemma pageGrows_trans: "pageGrows p q \<Longrightarrow> pageGrows q r \<Longrightarrow> pageGrows p r"
  unfolding pageGrows_def
proof -
  assume "\<exists>ts. nonWords q = nonWords p @ map ETable ts" "\<exists>ts. nonWords r = nonWords q @ map ETable ts"
  then obtain ts us where "nonWords q = nonWords p @ map ETable ts" "nonWords r = nonWords q @ map ETable us"
    by blast
  then have "nonWords r = nonWords p @ map ETable (ts @ us)" by simp
  then show "\<exists>ts. nonWords r = nonWords p @ map ETable ts" by blast
qed

lemma docGrows_refl: "docGrows d d"
  by (simp add: docGrows_def pageGrows_refl)

lemma docGrows_trans: "docGrows a b \<Longrightarrow> docGrows b c \<Longrightarrow> docGrows a c"
  unfolding docGrows_def using pageGrows_trans by auto

lemma docGrows_removeWords: "docGrows d (removeWordsUsedInCells d)"
  by (simp add: docGrows_def removeWordsUsedInCells_def pageGrows_def nonWords_removeWordsOfPage)


lemma noCellWord_no_tables: "getTables page = [] \<Longrightarrow> noCellWordOnPage page"
  by (simp add: noCellWordOnPage_def cellWordsIdsOf_def getTableCells_def)

lemma docTables_Nil: "docTables doc = [] \<Longrightarrow> page \<in> set (doc_pages doc) \<Longrightarrow> getTables page = []"
  by (auto simp: docTables_def)

lemma runConfigs_noCellWord:
  "runConfigs w cfgs doc = Inr doc' \<Longrightarrow>
   \<forall>page \<in> set (doc_pages doc). noCellWordOnPage page \<Longrightarrow>
   \<forall>page \<in> set (doc_pages doc'). noCellWordOnPage page"
proof (induction cfgs arbitrary: doc)
  case Nil
  then show ?case by simp
next
  case (Cons config rest)
  show ?case
  proof (cases "readTables w (doc_inputFile doc) config")
    case (Inl e)
    with Cons.prems show ?thesis by simp
  next
    case (Inr r)
    show ?thesis
    proof (cases "res_status r = 0")
      case False
      with Inr Cons.prems have "runConfigs w rest doc = Inr doc'" by simp
      from Cons.IH [OF this Cons.prems(2)] show ?thesis .
    next
      case True
      with Inr Cons.prems obtain tablesData d where
        "runConfigs w rest (removeWordsUsedInCells d) = Inr doc'"
        by (auto split: sum.splits)
      moreover have "\<forall>page \<in> set (doc_pages (removeWordsUsedInCells d)). noCellWordOnPage page"
        by (auto simp: removeWordsUsedInCells_def noCellWord_removeWordsOfPage)
      ultimately show ?thesis using Cons.IH by blast
    qed
  qed
qed

lemma pageGrows_addTable:
  "addTable tableData (Some page) = Inr page' \<Longrightarrow> pageGrows page page'"
proof -
  assume "addTable tableData (Some page) = Inr page'"
  from addTable_page_box [OF this] obtain ts where
    "page_elements page' = page_elements page @ map ETable ts" by blast
  then have "nonWords page' = nonWords page @ map ETable ts"
    by (simp add: nonWords_def filter_map comp_def)
  then show ?thesis unfolding pageGrows_def by blast
qed

lemma docGrows_addPageTables:
  "addPageTables tables p doc = Inr doc' \<Longrightarrow> docGrows doc doc'"
proof -
  assume a: "addPageTables tables p doc = Inr doc'"
  from addPageTables_frame [OF a] obtain ts where
    l: "length (doc_pages doc') = length (doc_pages doc)" and
    o: "\<forall>i. i \<noteq> nat (p - 1) \<longrightarrow> doc_pages doc' ! i = doc_pages doc ! i" and
    e: "page_elements (doc_pages doc' ! nat (p - 1))
           = page_elements (doc_pages doc ! nat (p - 1)) @ map ETable ts"
    by blast
  have "nonWords (doc_pages doc' ! nat (p - 1)) = nonWords (doc_pages doc ! nat (p - 1)) @ map ETable ts"
    using e by (simp add: nonWords_def filter_map comp_def)
  then have g: "pageGrows (doc_pages doc ! nat (p - 1)) (doc_pages doc' ! nat (p - 1))"
    unfolding pageGrows_def by blast
  show ?thesis
    unfolding docGrows_def
  proof (intro conjI allI impI)
    show "length (doc_pages doc') = length (doc_pages doc)" by (rule l)
    fix i assume "i < length (doc_pages doc)"
    show "pageGrows (doc_pages doc ! i) (doc_pages doc' ! i)"
      using o g pageGrows_refl by (cases "i = nat (p - 1)") auto
  qed
qed

lemma docGrows_addTables:
  "addTables tablesData doc = Inr doc' \<Longrightarrow> docGrows doc doc'"
proof (induction tablesData arbitrary: doc)
  case Nil
  then show ?case by (simp add: docGrows_refl)
next
  case (Cons pageData rest)
  then obtain d where "addPageTables (pd_tables pageData) (pd_page pageData) doc = Inr d"
    and "addTables rest d = Inr doc'"
    by (auto split: sum.splits)
  then show ?case using Cons.IH docGrows_addPageTables docGrows_trans by blast
qed

lemma docGrows_runConfigs:
  "runConfigs w cfgs doc = Inr doc' \<Longrightarrow> docGrows doc doc'"
proof (induction cfgs arbitrary: doc)
  case Nil
  then show ?case by (simp add: docGrows_refl)
next
  case (Cons config rest)
  show ?case
  proof (cases "readTables w (doc_inputFile doc) config")
    case (Inl e)
    with Cons.prems show ?thesis by simp
  next
    case (Inr r)
    show ?thesis
    proof (cases "res_status r = 0")
      case False
      with Inr Cons.prems have "runConfigs w rest doc = Inr doc'" by simp
      from Cons.IH [OF this] show ?thesis .
    next
      case True
      with Inr Cons.prems obtain tablesData d where
        "addTables tablesData doc = Inr d"
        "runConfigs w rest (removeWordsUsedInCells d) = Inr doc'"
        by (auto split: sum.splits)
      then show ?thesis
        using Cons.IH docGrows_addTables docGrows_removeWords docGrows_trans by blast
    qed
  qed
qed

lemma main_cases:
  "main w runConfig doc = Inr doc' \<Longrightarrow> doc' = doc \<or> runConfigs w runConfig doc = Inr doc'"
  by (auto simp: main_def split: sum.splits if_splits)

text \<open>
  Claim C4. \<open>removeWordsUsedInCells\<close> leaves on no page a word in the flat element list
  whose id a table cell of that page refers to, and it removes no element that is not a
  word. When the stage completes on a document that had no table when the stage began
  (the stage leaves every other document untouched), every page of the result is
  deduplicated in this way, and the elements of the input pages that are not words are
  all still there, in their order, followed by the tables that were added.
\<close>

theorem words_of_cells_removed:
  "(\<forall>page \<in> set (doc_pages (removeWordsUsedInCells d)). noCellWordOnPage page) \<and>
   (\<forall>page. nonWords (removeWordsOfPage page) = nonWords page) \<and>
   (main w runConfig doc = Inr doc' \<and> docTables doc = [] \<longrightarrow>
      (\<forall>page \<in> set (doc_pages doc'). noCellWordOnPage page) \<and> docGrows doc doc')"
proof (intro conjI impI)
  show "\<forall>page \<in> set (doc_pages (removeWordsUsedInCells d)). noCellWordOnPage page"
    by (auto simp: removeWordsUsedInCells_def noCellWord_removeWordsOfPage)
  show "\<forall>page. nonWords (removeWordsOfPage page) = nonWords page"
    by (simp add: nonWords_removeWordsOfPage)
next
  assume a: "main w runConfig doc = Inr doc' \<and> docTables doc = []"
  then have n: "\<forall>page \<in> set (doc_pages doc). noCellWordOnPage page"
    using docTables_Nil noCellWord_no_tables by blast
  from a main_cases have c: "doc' = doc \<or> runConfigs w runConfig doc = Inr doc'" by blast
  show "\<forall>page \<in> set (doc_pages doc'). noCellWordOnPage page"
    using c n runConfigs_noCellWord by blast
  show "docGrows doc doc'"
    using c docGrows_refl docGrows_runConfigs by blast
qed

theorem words_of_cells_removed_witness:
  "main exWorld [exLattice, exStream] exDoc = Inr exDocAfter \<and>
   docTables exDoc = [] \<and>
   map page_elements (doc_pages exDocAfter)
     = [[EOther 5, EWord exWord2, ETable exReconstructed]] \<and>
   map cellWordsIdsOf (doc_pages exDocAfter) = [[1]] \<and>
   list_all noCellWordOnPage (doc_pages exDocAfter) \<and>
   docGrows exDoc exDocAfter"
proof -
  have m: "main exWorld [exLattice, exStream] exDoc = Inr exDocAfter"
    unfolding exDocAfter_def exPageWithTable_def exReconstructed_def by code_simp
  have t: "docTables exDoc = []"
    by (simp add: docTables_def getTables_def exDoc_def exPage_def)
  have e: "map page_elements (doc_pages exDocAfter)
             = [[EOther 5, EWord exWord2, ETable exReconstructed]]"
    unfolding exDocAfter_def exPageWithTable_def exReconstructed_def by code_simp
  have c: "map cellWordsIdsOf (doc_pages exDocAfter) = [[1]]"
    unfolding exDocAfter_def exPageWithTable_def exReconstructed_def by code_simp
  show ?thesis
    using m t e c
      words_of_cells_removed [where w = exWorld and runConfig = "[exLattice, exStream]"
        and doc = exDoc and doc' = exDocAfter]
    by (simp add: list_all_iff)
qed

section \<open>Passes that complete\<close>







section \<open>Exceptions of the main entry point\<close>




end
